theory Spec2Isabelle
  imports Complex_Main "HOL-Library.Char_ord" "HOL-Library.List_Lexorder"
    "HOL-Library.Product_Lexorder"
begin

section \<open>Air-quality ingestion pipeline: data model\<close>

text \<open>
  The model follows \<^verbatim>\<open>classes/data_processor.py\<close>, \<^verbatim>\<open>classes/data_loader.py\<close> and
  \<^verbatim>\<open>main.py\<close>. Python integers are \<open>int\<close>; a Python float is read as the real
  number it denotes (equality of two floats is equality of reals; what pandas reads
  for a stored NULL is modelled where it occurs, in the coordinates and the time
  stamps); a Python string is a list of code points below 256. The string fields of a
  record are strings: a JSON null there is stored as NULL and read back as \<^verbatim>\<open>None\<close>,
  so it behaves as one more string value and is not modelled apart. The coordinates may
  be null. A pandas
  DataFrame is the list of its rows, in order; the empty list is the DataFrame without
  rows (and, when it was built from an empty list of dicts, without columns).
\<close>

datatype error =
    KeyError string
  | AttributeError string
  | ValueError string
  | SQLAlchemyError string
  | RuntimeError string

text \<open>
  Rows of the four core tables. The latitude and longitude of a location row are \<open>None\<close>
  where the frame holds no number: a \<^verbatim>\<open>None\<close> in a frame built from the batch, a NaN
  or a \<^verbatim>\<open>None\<close> in a frame read from the database (a stored NULL).
\<close>

record country_row =
  country_id :: int
  country_name :: string

record city_row =
  city_id :: int
  city_name :: string
  city_country_id :: int

record location_row =
  location_id :: int
  location_name :: string
  location_city_id :: int
  latitude :: "real option"
  longitude :: "real option"

text \<open>
  A measurement row carries \<open>last_updated\<close> first as the raw string of the API
  (\<open>string measurement_row\<close>) and, after line 138, as a timezone-naive timestamp or NaT
  (\<open>int option measurement_row\<close>, \<open>None\<close> for NaT).
\<close>

record 't measurement_row =
  m_location_id :: int
  m_parameter :: string
  m_value :: real
  m_last_updated :: 't
  m_unit :: string

record parameter_row =
  p_location_id :: int
  p_value :: real
  p_last_updated :: "int option"

text \<open>
  A raw API record is a dict; a field is \<open>None\<close> when the dict has no such key, which
  is what makes \<^verbatim>\<open>result['city']\<close> raise \<^verbatim>\<open>KeyError\<close>. A coordinate is
  \<open>Some None\<close> when the key is there and its value is null. The value under
  \<^verbatim>\<open>coordinates\<close>, where the key is there, is a dict, and the value under
  \<^verbatim>\<open>measurements\<close> a list of dicts: a null in their place (on which line 107 or
  line 130 raises \<^verbatim>\<open>TypeError\<close>) is not a record of the model.
\<close>

record raw_coordinates =
  c_latitude :: "real option option"
  c_longitude :: "real option option"

record raw_measurement =
  r_parameter :: "string option"
  r_value :: "real option"
  r_lastUpdated :: "string option"
  r_unit :: "string option"

record raw_result =
  r_location :: "string option"
  r_city :: "string option"
  r_country :: "string option"
  r_coordinates :: "raw_coordinates option"
  r_measurements :: "raw_measurement list option"

text \<open>
  What \<^verbatim>\<open>pd.to_datetime\<close> returns for one string: the wall-clock reading (in some
  fixed unit since the epoch) and the UTC offset of the string, \<open>None\<close> for a string
  without offset. The parser itself is a parameter \<open>to_datetime\<close> of the model, of
  type \<open>string \<Rightarrow> timestamp option\<close>; it returns \<open>None\<close> (NaT) where the string does
  not parse (\<^verbatim>\<open>errors='coerce'\<close>).
\<close>

record timestamp =
  wall_clock :: int
  utc_offset :: "int option"

text \<open>The database: the four core tables, the per-parameter tables and the key constraints.\<close>

record database =
  tbl_countries :: "country_row list"
  tbl_cities :: "city_row list"
  tbl_locations :: "location_row list"
  tbl_measurements :: "int option measurement_row list"
  tbl_parameters :: "string \<Rightarrow> parameter_row list"
  primary_keys :: "string set"
  foreign_keys :: "string set"

section \<open>Exceptions as values\<close>

definition bind_err :: "error + 'a \<Rightarrow> ('a \<Rightarrow> error + 'b) \<Rightarrow> error + 'b" where
  "bind_err x f = (case x of Inl e \<Rightarrow> Inl e | Inr v \<Rightarrow> f v)"

text \<open>\<^verbatim>\<open>d[k]\<close> on a dict: \<^verbatim>\<open>KeyError(k)\<close> when the key is absent.\<close>

definition getitem :: "string \<Rightarrow> 'a option \<Rightarrow> error + 'a" where
  "getitem k v = (case v of None \<Rightarrow> Inl (KeyError k) | Some x \<Rightarrow> Inr x)"

text \<open>A list comprehension whose element expression may raise.\<close>

fun map_err :: "('a \<Rightarrow> error + 'b) \<Rightarrow> 'a list \<Rightarrow> error + 'b list" where
  "map_err f [] = Inr []"
| "map_err f (x # xs) =
     bind_err (f x) (\<lambda>y. bind_err (map_err f xs) (\<lambda>ys. Inr (y # ys)))"

section \<open>Table names (data\_loader.py, lines 198--199)\<close>

text \<open>
  \<^verbatim>\<open>\s\<close> in a Python 3 \<^verbatim>\<open>str\<close> pattern: the code points for which
  \<^verbatim>\<open>str.isspace\<close> holds; below 256 these are 9--13, 28--32, 133 and 160.
\<close>

definition isspace :: "char \<Rightarrow> bool" where
  "isspace c = (let n = (of_char c :: nat) in
     (9 \<le> n \<and> n \<le> 13) \<or> (28 \<le> n \<and> n \<le> 32) \<or> n = 133 \<or> n = 160)"

text \<open>The character class \<^verbatim>\<open>[\s/_%-]\<close>.\<close>

definition is_separator :: "char \<Rightarrow> bool" where
  "is_separator c =
     (isspace c \<or> c = CHR ''/'' \<or> c = CHR ''_'' \<or> c = CHR ''%'' \<or> c = CHR ''-'')"

text \<open>
  \<^verbatim>\<open>re.sub(r'[\s/_%-]', '_', s)\<close>: the pattern is one character class with no
  repetition, so every match is one character.
\<close>

definition re_sub_separators :: "string \<Rightarrow> string" where
  "re_sub_separators s = map (\<lambda>c. if is_separator c then CHR ''_'' else c) s"

text \<open>
  \<^verbatim>\<open>str.lower\<close> on code points below 256: A--Z and the Latin-1 capitals 192--222
  (without the multiplication sign 215) move up by 32.
\<close>

definition lower_char :: "char \<Rightarrow> char" where
  "lower_char c = (let n = (of_char c :: nat) in
     if (65 \<le> n \<and> n \<le> 90) \<or> (192 \<le> n \<and> n \<le> 222 \<and> n \<noteq> 215)
     then char_of (n + 32) else c)"

definition lower :: "string \<Rightarrow> string" where
  "lower s = map lower_char s"

definition sanitize_table_name :: "string \<Rightarrow> string" where
  "sanitize_table_name table_name = lower (re_sub_separators table_name)"

definition parameter_table_name :: "string \<Rightarrow> string \<Rightarrow> string" where
  "parameter_table_name parameter unit =
     sanitize_table_name (''de10_na_openaq_'' @ parameter @ ''_'' @ unit)"

text \<open>
  The sanitization as the specification words it, for comparison: a run of one or more
  separator characters becomes one underscore, then the string is lower-cased.
\<close>

function collapse_separator_runs :: "string \<Rightarrow> string" where
  "collapse_separator_runs [] = []"
| "collapse_separator_runs (c # cs) =
     (if is_separator c then CHR ''_'' # collapse_separator_runs (dropWhile is_separator cs)
      else c # collapse_separator_runs cs)"
  by pat_completeness auto
termination
  by (relation "measure length") (auto simp: length_dropWhile_le less_Suc_eq_le)

definition spec_sanitize_table_name :: "string \<Rightarrow> string" where
  "spec_sanitize_table_name table_name = lower (collapse_separator_runs table_name)"

section \<open>Entity resolution (data\_processor.py, lines 59--147)\<close>

text \<open>
  \<^verbatim>\<open>populate_id_map\<close> (lines 77--82). The Python mutates \<open>id_map\<close> in place and
  returns the counter; the model returns both. \<open>id_col\<close> and \<open>key_cols\<close> are the
  column readers.
\<close>

fun populate_id_map ::
  "'r list \<Rightarrow> ('k \<rightharpoonup> int) \<Rightarrow> ('r \<Rightarrow> int) \<Rightarrow> ('r \<Rightarrow> 'k) \<Rightarrow> int \<Rightarrow> ('k \<rightharpoonup> int) \<times> int" where
  "populate_id_map [] id_map id_col key_cols counter = (id_map, counter)"
| "populate_id_map (row # df) id_map id_col key_cols counter =
     populate_id_map df (id_map(key_cols row \<mapsto> id_col row)) id_col key_cols
       (max counter (id_col row + 1))"

definition country_key_cols :: "country_row \<Rightarrow> string" where
  "country_key_cols row = country_name row"

definition city_key_cols :: "city_row \<Rightarrow> string \<times> int" where
  "city_key_cols row = (city_name row, city_country_id row)"

text \<open>
  A coordinate as a component of a dict key. A number equals itself, and the \<^verbatim>\<open>None\<close> of
  a batch record equals itself. A stored NULL is read back (\<^verbatim>\<open>pd.read_sql\<close>, line 53) in
  one of two ways: where the column holds at least one number it is a float column and the
  NULL is a NaN, which equals nothing, not even another NaN; where the column holds NULLs
  only it is an object column and the NULL is \<^verbatim>\<open>None\<close>. A NaN is never looked up,
  because a batch record holds a number or \<^verbatim>\<open>None\<close>, so the one value \<open>NaN\<close> stands
  for all of them.
\<close>

datatype coord = Number real | PyNone | NaN

definition batch_coord :: "real option \<Rightarrow> coord" where
  "batch_coord x = (case x of None \<Rightarrow> PyNone | Some v \<Rightarrow> Number v)"

definition stored_coord :: "real option list \<Rightarrow> real option \<Rightarrow> coord" where
  "stored_coord column x =
     (case x of
        Some v \<Rightarrow> Number v
      | None \<Rightarrow> if list_all (\<lambda>y. y = None) column then PyNone else NaN)"

text \<open>The key of a row of the stored locations frame \<open>df\<close>, as line 79 reads it.\<close>

definition location_key_cols ::
  "location_row list \<Rightarrow> location_row \<Rightarrow> string \<times> int \<times> coord \<times> coord" where
  "location_key_cols df row =
     (location_name row, location_city_id row,
      stored_coord (map latitude df) (latitude row),
      stored_coord (map longitude df) (longitude row))"

text \<open>The key of a location row that the loop has just appended, as line 107 built it.\<close>

definition new_location_key :: "location_row \<Rightarrow> string \<times> int \<times> coord \<times> coord" where
  "new_location_key row =
     (location_name row, location_city_id row, batch_coord (latitude row),
      batch_coord (longitude row))"

text \<open>The local variables of \<^verbatim>\<open>process_air_quality_data\<close> that the loop mutates.\<close>

record resolver_state =
  country_id_map :: "string \<rightharpoonup> int"
  city_id_map :: "string \<times> int \<rightharpoonup> int"
  location_id_map :: "string \<times> int \<times> coord \<times> coord \<rightharpoonup> int"
  country_id_counter :: int
  city_id_counter :: int
  location_id_counter :: int
  countries :: "country_row list"
  cities :: "city_row list"
  locations :: "location_row list"
  measurements :: "string measurement_row list"

text \<open>Lines 69--86: the state before the loop, seeded from the stored rows.\<close>

definition initial_state :: "database \<Rightarrow> resolver_state" where
  "initial_state db =
     (let (country_map, country_counter) =
            populate_id_map (tbl_countries db) Map.empty country_id country_key_cols 1;
          (city_map, city_counter) =
            populate_id_map (tbl_cities db) Map.empty city_id city_key_cols 1;
          (location_map, location_counter) =
            populate_id_map (tbl_locations db) Map.empty location_id
              (location_key_cols (tbl_locations db)) 1
      in \<lparr>country_id_map = country_map, city_id_map = city_map,
          location_id_map = location_map, country_id_counter = country_counter,
          city_id_counter = city_counter, location_id_counter = location_counter,
          countries = [], cities = [], locations = [], measurements = []\<rparr>)"

text \<open>Lines 92--97, 101--106 and 110--121, one block per entity type.\<close>

definition resolve_country :: "string \<Rightarrow> resolver_state \<Rightarrow> resolver_state \<times> int" where
  "resolve_country country st =
     (let st' = (if country_id_map st country = None
                 then st\<lparr>country_id_map := (country_id_map st)(country \<mapsto> country_id_counter st),
                        countries := countries st @
                          [\<lparr>country_id = country_id_counter st, country_name = country\<rparr>],
                        country_id_counter := country_id_counter st + 1\<rparr>
                 else st)
      in (st', the (country_id_map st' country)))"

definition resolve_city :: "string \<Rightarrow> int \<Rightarrow> resolver_state \<Rightarrow> resolver_state \<times> int" where
  "resolve_city city country_id' st =
     (let city_key = (city, country_id');
          st' = (if city_id_map st city_key = None
                 then st\<lparr>city_id_map := (city_id_map st)(city_key \<mapsto> city_id_counter st),
                        cities := cities st @
                          [\<lparr>city_id = city_id_counter st, city_name = city,
                            city_country_id = country_id'\<rparr>],
                        city_id_counter := city_id_counter st + 1\<rparr>
                 else st)
      in (st', the (city_id_map st' city_key)))"

definition resolve_location ::
  "string \<Rightarrow> int \<Rightarrow> real option \<Rightarrow> real option \<Rightarrow> resolver_state \<Rightarrow>
   resolver_state \<times> int" where
  "resolve_location location_name' city_id' lat lon st =
     (let location_key = (location_name', city_id', batch_coord lat, batch_coord lon);
          st' = (if location_id_map st location_key = None
                 then st\<lparr>location_id_map :=
                          (location_id_map st)(location_key \<mapsto> location_id_counter st),
                        locations := locations st @
                          [\<lparr>location_id = location_id_counter st,
                            location_name = location_name', location_city_id = city_id',
                            latitude = lat, longitude = lon\<rparr>],
                        location_id_counter := location_id_counter st + 1\<rparr>
                 else st)
      in (st', the (location_id_map st' location_key)))"

text \<open>
  Lines 89--121 for one record: the four subscripts of line 89 in their order, then the
  country and city blocks, then the two coordinate subscripts of line 107, then the
  location block. The result is the state and the values of the local variables \<^verbatim>\<open>country_id\<close>,
  \<^verbatim>\<open>city_id\<close> and \<^verbatim>\<open>location_id\<close> (primed here, the plain names being the columns).
\<close>

definition resolve_entities ::
  "resolver_state \<Rightarrow> raw_result \<Rightarrow> error + resolver_state \<times> int \<times> int \<times> int" where
  "resolve_entities st result =
     bind_err (getitem ''location'' (r_location result)) (\<lambda>location_name'.
     bind_err (getitem ''city'' (r_city result)) (\<lambda>city.
     bind_err (getitem ''country'' (r_country result)) (\<lambda>country.
     bind_err (getitem ''coordinates'' (r_coordinates result)) (\<lambda>coordinates.
       let (st1, country_id') = resolve_country country st;
           (st2, city_id') = resolve_city city country_id' st1
       in bind_err (getitem ''latitude'' (c_latitude coordinates)) (\<lambda>lat.
          bind_err (getitem ''longitude'' (c_longitude coordinates)) (\<lambda>lon.
            let (st3, location_id') = resolve_location location_name' city_id' lat lon st2
            in Inr (st3, country_id', city_id', location_id')))))))"

text \<open>Lines 124--130: the dict built for one measurement entry.\<close>

definition measurement_dict :: "int \<Rightarrow> raw_measurement \<Rightarrow> error + string measurement_row" where
  "measurement_dict location_id' m =
     bind_err (getitem ''parameter'' (r_parameter m)) (\<lambda>parameter.
     bind_err (getitem ''value'' (r_value m)) (\<lambda>val.
     bind_err (getitem ''lastUpdated'' (r_lastUpdated m)) (\<lambda>lastUpdated.
     bind_err (getitem ''unit'' (r_unit m)) (\<lambda>unit.
       Inr \<lparr>m_location_id = location_id', m_parameter = parameter, m_value = val,
            m_last_updated = lastUpdated, m_unit = unit\<rparr>))))"

text \<open>One iteration of the loop of line 88.\<close>

definition process_result :: "resolver_state \<Rightarrow> raw_result \<Rightarrow> error + resolver_state" where
  "process_result st result =
     bind_err (resolve_entities st result) (\<lambda>(st', country_id', city_id', location_id').
     bind_err (getitem ''measurements'' (r_measurements result)) (\<lambda>ms.
     bind_err (map_err (measurement_dict location_id') ms) (\<lambda>rows.
       Inr (st'\<lparr>measurements := measurements st' @ rows\<rparr>))))"

fun process_results :: "resolver_state \<Rightarrow> raw_result list \<Rightarrow> error + resolver_state" where
  "process_results st [] = Inr st"
| "process_results st (result # results) =
     bind_err (process_result st result) (\<lambda>st'. process_results st' results)"

subsection \<open>Timestamps (line 138)\<close>

text \<open>
  The \<^verbatim>\<open>.dt\<close> accessor exists when the column of parsed values got a datetime dtype:
  when the values that are not NaT all carry the same UTC offset (or all none).
  Otherwise the column has dtype object and \<^verbatim>\<open>.dt\<close> raises \<^verbatim>\<open>AttributeError\<close>.
  \<^verbatim>\<open>tz_localize(None)\<close> then drops the offset and keeps the wall-clock reading.
\<close>

definition single_tz :: "timestamp option list \<Rightarrow> bool" where
  "single_tz ts =
     (case List.map_filter (map_option utc_offset) ts of
        [] \<Rightarrow> True
      | tz # tzs \<Rightarrow> list_all (\<lambda>z. z = tz) tzs)"

definition dt_tz_localize_None :: "timestamp option list \<Rightarrow> error + int option list" where
  "dt_tz_localize_None ts =
     (if single_tz ts then Inr (map (map_option wall_clock) ts)
      else Inl (AttributeError ''Can only use .dt accessor with datetimelike values''))"

text \<open>
  \<^verbatim>\<open>measurements_df['last_updated']\<close>: a DataFrame built from an empty list of dicts
  has no columns, so the subscript raises \<^verbatim>\<open>KeyError\<close>.
\<close>

definition last_updated_column :: "string measurement_row list \<Rightarrow> error + string list" where
  "last_updated_column df =
     (if df = [] then Inl (KeyError ''last_updated'') else Inr (map m_last_updated df))"

definition set_last_updated ::
  "string measurement_row \<Rightarrow> int option \<Rightarrow> int option measurement_row" where
  "set_last_updated m t =
     \<lparr>m_location_id = m_location_id m, m_parameter = m_parameter m, m_value = m_value m,
      m_last_updated = t, m_unit = m_unit m\<rparr>"

definition normalise_timestamps ::
  "(string \<Rightarrow> timestamp option) \<Rightarrow> string measurement_row list \<Rightarrow>
   error + int option measurement_row list" where
  "normalise_timestamps to_datetime df =
     bind_err (last_updated_column df) (\<lambda>col.
     bind_err (dt_tz_localize_None (map to_datetime col)) (\<lambda>last_updated.
       Inr (map2 set_last_updated df last_updated)))"

subsection \<open>Deduplication (lines 140--145)\<close>

text \<open>
  The outer merge on all five columns with the indicator, filtered to \<open>left_only\<close>: the
  rows of the left frame that equal no row of the right frame (pandas matches null keys
  with null keys). The order in which the merge returns them is not modelled.
\<close>

definition merge_left_only :: "'a list \<Rightarrow> 'a list \<Rightarrow> 'a list" where
  "merge_left_only left right = filter (\<lambda>row. row \<notin> set right) left"

text \<open>\<^verbatim>\<open>drop_duplicates\<close> on all columns keeps the first of equal rows.\<close>

fun drop_duplicates :: "'a list \<Rightarrow> 'a list" where
  "drop_duplicates [] = []"
| "drop_duplicates (row # df) = row # filter (\<lambda>r. r \<noteq> row) (drop_duplicates df)"

text \<open>The rows that lines 140--145 keep, where the merge does not raise.\<close>

definition dedup_rows ::
  "int option measurement_row list \<Rightarrow> int option measurement_row list \<Rightarrow>
   int option measurement_row list" where
  "dedup_rows measurements_df existing_measurements =
     (if existing_measurements \<noteq> []
      then drop_duplicates (merge_left_only measurements_df existing_measurements)
      else drop_duplicates measurements_df)"

text \<open>
  The merge compares the dtypes of the key columns first. The left \<open>last_updated\<close> is a
  datetime column (line 138). The stored one is read back as a datetime column when at
  least one stored time stamp is not NULL; a stored column of NULLs only is read back
  with dtype object, and the merge raises \<^verbatim>\<open>ValueError\<close>.
\<close>

definition merge_raises :: "int option measurement_row list \<Rightarrow> bool" where
  "merge_raises existing_measurements =
     (existing_measurements \<noteq> [] \<and>
      list_all (\<lambda>row. m_last_updated row = None) existing_measurements)"

definition deduplicate ::
  "int option measurement_row list \<Rightarrow> int option measurement_row list \<Rightarrow>
   error + int option measurement_row list" where
  "deduplicate measurements_df existing_measurements =
     (if merge_raises existing_measurements
      then Inl (ValueError ''You are trying to merge on datetime64[ns] and object columns'')
      else Inr (dedup_rows measurements_df existing_measurements))"

definition process_air_quality_data ::
  "(string \<Rightarrow> timestamp option) \<Rightarrow> database \<Rightarrow> raw_result list \<Rightarrow>
   error + country_row list \<times> city_row list \<times> location_row list \<times>
           int option measurement_row list" where
  "process_air_quality_data to_datetime db results =
     bind_err (process_results (initial_state db) results) (\<lambda>st.
     bind_err (normalise_timestamps to_datetime (measurements st)) (\<lambda>measurements_df.
     bind_err (deduplicate measurements_df (tbl_measurements db)) (\<lambda>new_measurements.
       Inr (countries st, cities st, locations st, new_measurements))))"

section \<open>Loading (data\_loader.py) and the orchestrator (main.py)\<close>

text \<open>
  \<^verbatim>\<open>create_parameter_tables\<close> (data\_processor.py, lines 150--168): \<^verbatim>\<open>groupby\<close>
  yields the groups in the sorted order of their keys; each group loses the two key
  columns.
\<close>

definition drop_parameter_unit :: "int option measurement_row \<Rightarrow> parameter_row" where
  "drop_parameter_unit m =
     \<lparr>p_location_id = m_location_id m, p_value = m_value m,
      p_last_updated = m_last_updated m\<rparr>"

definition create_parameter_tables ::
  "int option measurement_row list \<Rightarrow> ((string \<times> string) \<times> parameter_row list) list" where
  "create_parameter_tables measurements_df =
     map (\<lambda>(parameter, unit).
            ((parameter, unit),
             map drop_parameter_unit
               (filter (\<lambda>m. m_parameter m = parameter \<and> m_unit m = unit) measurements_df)))
         (sort (remdups (map (\<lambda>m. (m_parameter m, m_unit m)) measurements_df)))"

text \<open>
  The database operations of the loader. Whether one of them fails is not decided by
  the program; it is the parameter \<open>fails\<close>. An operation that raises leaves the
  database as the operations before it left it, so each returns the database together
  with the exception raised, if any.
\<close>

datatype db_op =
    Upload string
  | Cast string
  | CheckKey string string
  | AddPrimaryKey string
  | AddForeignKey string

definition then_db ::
  "database \<times> error option \<Rightarrow> (database \<Rightarrow> database \<times> error option) \<Rightarrow>
   database \<times> error option" where
  "then_db r f = (case r of (db, None) \<Rightarrow> f db | (db, Some e) \<Rightarrow> (db, Some e))"

text \<open>
  \<^verbatim>\<open>__upload_to_db\<close> (lines 31--46): one \<^verbatim>\<open>to_sql(..., if_exists='append')\<close> in a
  connection of its own; \<open>to_sql\<close> is the effect of the append on the table named.
\<close>

definition upload_to_db ::
  "(db_op \<Rightarrow> bool) \<Rightarrow> (database \<Rightarrow> database) \<Rightarrow> string \<Rightarrow> database \<Rightarrow>
   database \<times> error option" where
  "upload_to_db fails to_sql table_name db =
     (if fails (Upload table_name) then (db, Some (SQLAlchemyError table_name))
      else (to_sql db, None))"

definition cast_data_types ::
  "(db_op \<Rightarrow> bool) \<Rightarrow> string \<Rightarrow> database \<Rightarrow> database \<times> error option" where
  "cast_data_types fails table_name db =
     (if fails (Cast table_name) then (db, Some (RuntimeError table_name)) else (db, None))"

definition add_primary_key ::
  "(db_op \<Rightarrow> bool) \<Rightarrow> string \<Rightarrow> database \<Rightarrow> database \<times> error option" where
  "add_primary_key fails table_name db =
     (if fails (AddPrimaryKey table_name) then (db, Some (RuntimeError table_name))
      else (db\<lparr>primary_keys := insert table_name (primary_keys db)\<rparr>, None))"

definition add_foreign_key ::
  "(db_op \<Rightarrow> bool) \<Rightarrow> string \<Rightarrow> database \<Rightarrow> database \<times> error option" where
  "add_foreign_key fails table_name db =
     (if fails (AddForeignKey table_name) then (db, Some (RuntimeError table_name))
      else (db\<lparr>foreign_keys := insert table_name (foreign_keys db)\<rparr>, None))"

text \<open>\<^verbatim>\<open>__check_key_exists\<close> (lines 92--119) answers \<open>False\<close> when its query fails.\<close>

definition check_key_exists :: "(db_op \<Rightarrow> bool) \<Rightarrow> string \<Rightarrow> string \<Rightarrow> database \<Rightarrow> bool" where
  "check_key_exists fails table_name key db =
     (if fails (CheckKey table_name key) then False
      else if key = ''PRIMARY KEY'' then table_name \<in> primary_keys db
      else table_name \<in> foreign_keys db)"

text \<open>The four core tables, in the order of \<^verbatim>\<open>table_data\<close> (lines 175--180).\<close>

datatype core_table = Countries | Cities | Locations | Measurements

fun table_names :: "core_table \<Rightarrow> string" where
  "table_names Countries = ''de10_na_openaq_countries''"
| "table_names Cities = ''de10_na_openaq_cities''"
| "table_names Locations = ''de10_na_openaq_locations''"
| "table_names Measurements = ''de10_na_openaq_measurements''"

fun has_primary_key :: "core_table \<Rightarrow> bool" where
  "has_primary_key Measurements = False"
| "has_primary_key t = True"

fun has_foreign_keys :: "core_table \<Rightarrow> bool" where
  "has_foreign_keys Countries = False"
| "has_foreign_keys t = True"

record dataframes =
  countries_df :: "country_row list"
  cities_df :: "city_row list"
  locations_df :: "location_row list"
  measurements_df :: "int option measurement_row list"

fun append_core :: "dataframes \<Rightarrow> core_table \<Rightarrow> database \<Rightarrow> database" where
  "append_core dfs Countries db = db\<lparr>tbl_countries := tbl_countries db @ countries_df dfs\<rparr>"
| "append_core dfs Cities db = db\<lparr>tbl_cities := tbl_cities db @ cities_df dfs\<rparr>"
| "append_core dfs Locations db = db\<lparr>tbl_locations := tbl_locations db @ locations_df dfs\<rparr>"
| "append_core dfs Measurements db =
     db\<lparr>tbl_measurements := tbl_measurements db @ measurements_df dfs\<rparr>"

text \<open>Lines 185--192: the body of the first loop of \<^verbatim>\<open>_upload_data\<close>.\<close>

definition upload_core_table ::
  "(db_op \<Rightarrow> bool) \<Rightarrow> dataframes \<Rightarrow> core_table \<Rightarrow> database \<Rightarrow> database \<times> error option" where
  "upload_core_table fails dfs t db =
     then_db (upload_to_db fails (append_core dfs t) (table_names t) db) (\<lambda>db1.
     then_db (cast_data_types fails (table_names t) db1) (\<lambda>db2.
     then_db (if has_primary_key t \<and>
                 \<not> check_key_exists fails (table_names t) ''PRIMARY KEY'' db2
              then add_primary_key fails (table_names t) db2 else (db2, None)) (\<lambda>db3.
       if has_foreign_keys t \<and> \<not> check_key_exists fails (table_names t) ''FOREIGN KEY'' db3
       then add_foreign_key fails (table_names t) db3 else (db3, None))))"

text \<open>Lines 196--202: the body of the second loop.\<close>

definition upload_parameter_table ::
  "(db_op \<Rightarrow> bool) \<Rightarrow> (string \<times> string) \<times> parameter_row list \<Rightarrow> database \<Rightarrow>
   database \<times> error option" where
  "upload_parameter_table fails item db =
     (case item of ((parameter, unit), df) \<Rightarrow>
        let table_name = parameter_table_name parameter unit
        in then_db (upload_to_db fails
                     (\<lambda>d. d\<lparr>tbl_parameters :=
                              (tbl_parameters d)(table_name := tbl_parameters d table_name @ df)\<rparr>)
                     table_name db) (\<lambda>db1.
           then_db (cast_data_types fails table_name db1) (\<lambda>db2.
             add_foreign_key fails table_name db2)))"

fun for_each ::
  "('a \<Rightarrow> database \<Rightarrow> database \<times> error option) \<Rightarrow> 'a list \<Rightarrow> database \<Rightarrow>
   database \<times> error option" where
  "for_each body [] db = (db, None)"
| "for_each body (x # xs) db = then_db (body x db) (for_each body xs)"

text \<open>
  \<^verbatim>\<open>_upload_data\<close> (lines 141--207): any exception of the two loops is caught, logged
  and raised again as \<^verbatim>\<open>RuntimeError\<close>.
\<close>

definition upload_data :: "(db_op \<Rightarrow> bool) \<Rightarrow> dataframes \<Rightarrow> database \<Rightarrow> database \<times> error option" where
  "upload_data fails dfs db =
     (case then_db
             (for_each (upload_core_table fails dfs) [Countries, Cities, Locations, Measurements] db)
             (for_each (upload_parameter_table fails)
                (create_parameter_tables (measurements_df dfs)))
      of (db', None) \<Rightarrow> (db', None)
       | (db', Some e) \<Rightarrow> (db', Some (RuntimeError ''Error uploading and configuring tables'')))"

text \<open>
  \<^verbatim>\<open>fetch_process_load_data\<close> (main.py, lines 22--42), given what the fetch returned.
  It raises nothing itself: an exception of the processing or the loading is caught and
  logged.
\<close>

datatype run_report =
    NoNewData
  | Loaded
  | ErrorLogged error

definition fetch_process_load_data ::
  "(db_op \<Rightarrow> bool) \<Rightarrow> (string \<Rightarrow> timestamp option) \<Rightarrow> database \<Rightarrow> raw_result list \<Rightarrow>
   database \<times> run_report" where
  "fetch_process_load_data fails to_datetime db results =
     (case process_air_quality_data to_datetime db results of
        Inl e \<Rightarrow> (db, ErrorLogged e)
      | Inr (countries', cities', locations', measurements') \<Rightarrow>
          if measurements' = [] then (db, NoNewData)
          else (case upload_data fails
                       \<lparr>countries_df = countries', cities_df = cities',
                        locations_df = locations', measurements_df = measurements'\<rparr> db
                of (db', None) \<Rightarrow> (db', Loaded)
                 | (db', Some e) \<Rightarrow> (db', ErrorLogged e)))"

section \<open>Auxiliary notions used in the statements\<close>

text \<open>Two neighbouring characters of the string are both separators.\<close>

fun adjacent_separators :: "string \<Rightarrow> bool" where
  "adjacent_separators (a # b # cs) =
     ((is_separator a \<and> is_separator b) \<or> adjacent_separators (b # cs))"
| "adjacent_separators cs = False"

text \<open>The tuple on which measurement rows are compared.\<close>

definition dedup_tuple :: "'t measurement_row \<Rightarrow> int \<times> string \<times> real \<times> 't \<times> string" where
  "dedup_tuple m = (m_location_id m, m_parameter m, m_value m, m_last_updated m, m_unit m)"


text \<open>The contents of the four core tables.\<close>

definition core_tables ::
  "database \<Rightarrow> country_row list \<times> city_row list \<times> location_row list \<times>
                int option measurement_row list" where
  "core_tables db = (tbl_countries db, tbl_cities db, tbl_locations db, tbl_measurements db)"

subsection \<open>Example data\<close>

definition empty_database :: database where
  "empty_database =
     \<lparr>tbl_countries = [], tbl_cities = [], tbl_locations = [], tbl_measurements = [],
      tbl_parameters = (\<lambda>name. []), primary_keys = {}, foreign_keys = {}\<rparr>"

text \<open>A parser that knows two strings, one in UTC and one two hours east of it.\<close>

definition example_to_datetime :: "string \<Rightarrow> timestamp option" where
  "example_to_datetime s =
     (if s = ''2024-01-01T00:00:00Z''
      then Some \<lparr>wall_clock = 1704067200, utc_offset = Some 0\<rparr>
      else if s = ''2024-01-01T02:00:00+02:00''
      then Some \<lparr>wall_clock = 1704074400, utc_offset = Some 7200\<rparr>
      else None)"

definition example_measurement :: raw_measurement where
  "example_measurement =
     \<lparr>r_parameter = Some ''pm25'', r_value = Some 12,
      r_lastUpdated = Some ''2024-01-01T00:00:00Z'', r_unit = Some ''ug/m3''\<rparr>"

definition example_record :: raw_result where
  "example_record =
     \<lparr>r_location = Some ''Station A'', r_city = Some ''Leeds'', r_country = Some ''UK'',
      r_coordinates = Some \<lparr>c_latitude = Some (Some 53.8), c_longitude = Some (Some (- 1.5))\<rparr>,
      r_measurements = Some [example_measurement]\<rparr>"

text \<open>The database after the rows of the example record have been stored.\<close>

definition stored_database :: database where
  "stored_database =
     empty_database
       \<lparr>tbl_countries := [\<lparr>country_id = 1, country_name = ''UK''\<rparr>],
        tbl_cities := [\<lparr>city_id = 1, city_name = ''Leeds'', city_country_id = 1\<rparr>],
        tbl_locations :=
          [\<lparr>location_id = 1, location_name = ''Station A'', location_city_id = 1,
            latitude = Some 53.8, longitude = Some (- 1.5)\<rparr>],
        tbl_measurements :=
          [\<lparr>m_location_id = 1, m_parameter = ''pm25'', m_value = 12,
            m_last_updated = Some 1704067200, m_unit = ''ug/m3''\<rparr>]\<rparr>"

text \<open>A second record: a new city of the same country, one reading reported twice.\<close>

definition second_record :: raw_result where
  "second_record =
     \<lparr>r_location = Some ''Station B'', r_city = Some ''York'', r_country = Some ''UK'',
      r_coordinates = Some \<lparr>c_latitude = Some (Some 54), c_longitude = Some (Some (- 1))\<rparr>,
      r_measurements = Some [example_measurement\<lparr>r_value := Some 15\<rparr>,
                             example_measurement\<lparr>r_value := Some 15\<rparr>]\<rparr>"

text \<open>A run in which the upload of the cities table fails and nothing else does.\<close>

definition cities_upload_fails :: "db_op \<Rightarrow> bool" where
  "cities_upload_fails op = (op = Upload ''de10_na_openaq_cities'')"

text \<open>Every entry of the three id maps of the first state is an entry of the second.\<close>

definition maps_le :: "resolver_state \<Rightarrow> resolver_state \<Rightarrow> bool" where
  "maps_le st st' =
     (country_id_map st \<subseteq>\<^sub>m country_id_map st' \<and> city_id_map st \<subseteq>\<^sub>m city_id_map st' \<and>
      location_id_map st \<subseteq>\<^sub>m location_id_map st')"

text \<open>
  The same for the entries that a record with numeric coordinates can look up: the
  country and city entries, and the location entries whose coordinates are numbers.
\<close>

definition numeric_maps_le :: "resolver_state \<Rightarrow> resolver_state \<Rightarrow> bool" where
  "numeric_maps_le st st' =
     (country_id_map st \<subseteq>\<^sub>m country_id_map st' \<and> city_id_map st \<subseteq>\<^sub>m city_id_map st' \<and>
      (\<forall>nm ci x y v. location_id_map st (nm, ci, Number x, Number y) = Some v \<longrightarrow>
         location_id_map st' (nm, ci, Number x, Number y) = Some v))"

text \<open>
  Every id that a map hands out, and every foreign key of a new row, is the id of a
  stored or new row of the table referred to.
\<close>

definition fk_inv :: "database \<Rightarrow> resolver_state \<Rightarrow> bool" where
  "fk_inv db st =
     ((\<forall>k v. country_id_map st k = Some v \<longrightarrow>
         v \<in> country_id ` set (tbl_countries db @ countries st)) \<and>
      (\<forall>k v. city_id_map st k = Some v \<longrightarrow>
         v \<in> city_id ` set (tbl_cities db @ cities st)) \<and>
      (\<forall>k v. location_id_map st k = Some v \<longrightarrow>
         v \<in> location_id ` set (tbl_locations db @ locations st)) \<and>
      (\<forall>row \<in> set (cities st).
         city_country_id row \<in> country_id ` set (tbl_countries db @ countries st)) \<and>
      (\<forall>row \<in> set (locations st).
         location_city_id row \<in> city_id ` set (tbl_cities db @ cities st)) \<and>
      (\<forall>m \<in> set (measurements st).
         m_location_id m \<in> location_id ` set (tbl_locations db @ locations st)))"

text \<open>
  A registry (id map, counter, new rows) of one entity type agrees with the stored rows:
  the map and the counter are what \<open>populate_id_map\<close> gives when it goes on from the
  seeded map and counter over the new rows, read with the keys under which the loop
  registered them; the new rows have pairwise different keys, none of them the key of a
  stored row; and their ids count up from the seeded counter.
\<close>

definition registry_inv ::
  "'r list \<Rightarrow> ('r \<Rightarrow> int) \<Rightarrow> ('r \<Rightarrow> 'k) \<Rightarrow> ('r \<Rightarrow> 'k) \<Rightarrow> ('k \<rightharpoonup> int) \<Rightarrow> int \<Rightarrow> 'r list \<Rightarrow>
   bool" where
  "registry_inv existing id_col key_cols new_key id_map counter rows =
     (populate_id_map rows
        (fst (populate_id_map existing Map.empty id_col key_cols 1)) id_col new_key
        (snd (populate_id_map existing Map.empty id_col key_cols 1)) = (id_map, counter) \<and>
      distinct (map new_key rows) \<and>
      (\<forall>r \<in> set rows. new_key r \<notin> key_cols ` set existing) \<and>
      map id_col rows =
        map (\<lambda>i. snd (populate_id_map existing Map.empty id_col key_cols 1) + int i)
          [0..<length rows])"

definition registries_inv :: "database \<Rightarrow> resolver_state \<Rightarrow> bool" where
  "registries_inv db st =
     (registry_inv (tbl_countries db) country_id country_key_cols country_key_cols
        (country_id_map st) (country_id_counter st) (countries st) \<and>
      registry_inv (tbl_cities db) city_id city_key_cols city_key_cols
        (city_id_map st) (city_id_counter st) (cities st) \<and>
      registry_inv (tbl_locations db) location_id (location_key_cols (tbl_locations db))
        new_location_key
        (location_id_map st) (location_id_counter st) (locations st))"











text \<open>A run in which the type cast of the measurements table fails and nothing else does.\<close>

definition measurements_cast_fails :: "db_op \<Rightarrow> bool" where
  "measurements_cast_fails op = (op = Cast ''de10_na_openaq_measurements'')"





text \<open>The four frames that the example record gives on the empty database.\<close>

definition example_frames :: dataframes where
  "example_frames =
     \<lparr>countries_df = [\<lparr>country_id = 1, country_name = ''UK''\<rparr>],
      cities_df = [\<lparr>city_id = 1, city_name = ''Leeds'', city_country_id = 1\<rparr>],
      locations_df =
        [\<lparr>location_id = 1, location_name = ''Station A'', location_city_id = 1,
          latitude = Some 53.8, longitude = Some (- 1.5)\<rparr>],
      measurements_df =
        [\<lparr>m_location_id = 1, m_parameter = ''pm25'', m_value = 12,
          m_last_updated = Some 1704067200, m_unit = ''ug/m3''\<rparr>]\<rparr>"

section \<open>Exceptions: basic facts\<close>

lemma bind_err_Inl [simp]: "bind_err (Inl e) f = Inl e"
  by (simp add: bind_err_def)

lemma bind_err_Inr [simp]: "bind_err (Inr v) f = f v"
  by (simp add: bind_err_def)

lemma bind_err_eq_Inr:
  "bind_err x f = Inr y \<longleftrightarrow> (\<exists>v. x = Inr v \<and> f v = Inr y)"
  by (cases x) simp_all

lemma getitem_simps [simp]:
  "getitem k None = Inl (KeyError k)" "getitem k (Some x) = Inr x"
  by (simp_all add: getitem_def)

lemma getitem_eq_Inr: "getitem k v = Inr x \<longleftrightarrow> v = Some x"
  by (cases v) simp_all

section \<open>Table names\<close>

lemma lower_char_underscore: "lower_char CHR ''_'' = CHR ''_''"
  by (simp add: lower_char_def)

lemma sanitize_length: "length (sanitize_table_name s) = length s"
  by (simp add: sanitize_table_name_def lower_def re_sub_separators_def)

lemma sanitize_nth:
  "i < length s \<Longrightarrow> sanitize_table_name s ! i =
     (if is_separator (s ! i) then CHR ''_'' else lower_char (s ! i))"
  by (simp add: sanitize_table_name_def lower_def re_sub_separators_def lower_char_underscore)

lemma collapse_no_adjacent:
  "\<not> adjacent_separators s \<Longrightarrow> collapse_separator_runs s = re_sub_separators s"
proof (induction s rule: collapse_separator_runs.induct)
  case 1
  then show ?case by (simp add: re_sub_separators_def)
next
  case (2 c cs)
  show ?case
  proof (cases "is_separator c")
    case True
    have dw: "dropWhile is_separator cs = cs"
      using True "2.prems" by (cases cs) auto
    have "\<not> adjacent_separators cs"
      using "2.prems" by (cases cs) auto
    with "2.IH"(1) True dw show ?thesis
      by (simp add: re_sub_separators_def)
  next
    case False
    have "\<not> adjacent_separators cs"
      using "2.prems" by (cases cs) auto
    with "2.IH"(2) False show ?thesis
      by (simp add: re_sub_separators_def)
  qed
qed

text \<open>
  Claim C8, as the code has it: the derived name has the length of the group name; each
  separator character (whitespace, \<open>/\<close>, \<open>_\<close>, \<open>%\<close>, \<open>-\<close>) is replaced by one underscore and
  every other character is lower-cased, so a run of \<open>k\<close> separators yields \<open>k\<close>
  underscores; where no two separators are adjacent this is the collapsing the
  specification describes; and the example of the specification holds.
\<close>

theorem sanitize_table_name_per_character:
  "length (sanitize_table_name s) = length s \<and>
   (\<forall>i < length s. sanitize_table_name s ! i =
      (if is_separator (s ! i) then CHR ''_'' else lower_char (s ! i))) \<and>
   (\<not> adjacent_separators s \<longrightarrow> sanitize_table_name s = spec_sanitize_table_name s) \<and>
   sanitize_table_name ''de10_na_openaq_pm2.5 ug/m3'' = ''de10_na_openaq_pm2.5_ug_m3''"
proof -
  have "sanitize_table_name ''de10_na_openaq_pm2.5 ug/m3'' = ''de10_na_openaq_pm2.5_ug_m3''"
    by (simp add: sanitize_table_name_def lower_def re_sub_separators_def is_separator_def
        isspace_def lower_char_def)
  moreover have "\<not> adjacent_separators s \<longrightarrow>
      sanitize_table_name s = spec_sanitize_table_name s"
    by (simp add: collapse_no_adjacent sanitize_table_name_def spec_sanitize_table_name_def)
  ultimately show ?thesis
    by (simp add: sanitize_length sanitize_nth)
qed

theorem sanitize_table_name_per_character_witness:
  "(2::nat) < length ''PM 2.5'' \<and> \<not> adjacent_separators ''PM 2.5'' \<and>
   sanitize_table_name ''PM 2.5'' ! 2 = CHR ''_'' \<and>
   spec_sanitize_table_name ''PM 2.5'' = ''pm_2.5'' \<and>
   sanitize_table_name ''PM 2.5'' = ''pm_2.5''"
proof -
  have a: "\<not> adjacent_separators ''PM 2.5''"
    by (simp add: is_separator_def isspace_def)
  have b: "spec_sanitize_table_name ''PM 2.5'' = ''pm_2.5''"
    by (simp add: spec_sanitize_table_name_def lower_def is_separator_def isspace_def
        lower_char_def char_of_eq_iff)
  have c: "is_separator (''PM 2.5'' ! 2)"
    by (simp add: is_separator_def isspace_def)
  from sanitize_table_name_per_character [of "''PM 2.5''"] a b c show ?thesis
    by simp
qed

text \<open>
  Claim C8 as stated fails where separators are adjacent: parameter
  \<open>relativehumidity\<close> with unit \<open>%\<close> gives a name that ends in two underscores, where
  collapsing runs would give one.
\<close>

theorem table_name_runs_not_collapsed:
  "parameter_table_name ''relativehumidity'' ''%'' = ''de10_na_openaq_relativehumidity__'' \<and>
   spec_sanitize_table_name (''de10_na_openaq_'' @ ''relativehumidity'' @ ''_'' @ ''%'') =
     ''de10_na_openaq_relativehumidity_'' \<and>
   parameter_table_name ''relativehumidity'' ''%'' \<noteq>
     spec_sanitize_table_name (''de10_na_openaq_'' @ ''relativehumidity'' @ ''_'' @ ''%'')"
  by (simp add: parameter_table_name_def sanitize_table_name_def spec_sanitize_table_name_def
      lower_def re_sub_separators_def is_separator_def isspace_def lower_char_def)

section \<open>Evaluation of the model on concrete inputs\<close>

lemmas eval_defs =
  process_air_quality_data_def initial_state_def process_result_def resolve_entities_def
  resolve_country_def resolve_city_def resolve_location_def measurement_dict_def
  normalise_timestamps_def last_updated_column_def dt_tz_localize_None_def single_tz_def
  set_last_updated_def deduplicate_def dedup_rows_def merge_raises_def
  merge_left_only_def List.map_filter_def batch_coord_def stored_coord_def
  country_key_cols_def city_key_cols_def location_key_cols_def
  empty_database_def example_to_datetime_def example_measurement_def example_record_def
  stored_database_def second_record_def

lemma example_run:
  "process_air_quality_data example_to_datetime empty_database [example_record] =
     Inr ([\<lparr>country_id = 1, country_name = ''UK''\<rparr>],
          [\<lparr>city_id = 1, city_name = ''Leeds'', city_country_id = 1\<rparr>],
          [\<lparr>location_id = 1, location_name = ''Station A'', location_city_id = 1,
            latitude = Some 53.8, longitude = Some (- 1.5)\<rparr>],
          [\<lparr>m_location_id = 1, m_parameter = ''pm25'', m_value = 12,
            m_last_updated = Some 1704067200, m_unit = ''ug/m3''\<rparr>])"
  by (simp add: eval_defs)

section \<open>Deduplication\<close>

lemma set_drop_duplicates [simp]: "set (drop_duplicates xs) = set xs"
  by (induction xs) auto

lemma distinct_drop_duplicates [simp]: "distinct (drop_duplicates xs)"
  by (induction xs) auto

lemma dedup_tuple_eq_iff: "dedup_tuple m = dedup_tuple m' \<longleftrightarrow> m = m'"
  by (cases m; cases m') (simp add: dedup_tuple_def)

lemma inj_dedup_tuple: "inj dedup_tuple"
  by (rule injI) (simp add: dedup_tuple_eq_iff)

lemma dedup_rows_distinct: "distinct (dedup_rows new existing)"
  by (simp add: dedup_rows_def)

lemma dedup_rows_disjoint: "set (dedup_rows new existing) \<inter> set existing = {}"
  by (auto simp: dedup_rows_def merge_left_only_def)

lemma deduplicate_Inr:
  "deduplicate new existing = Inr d \<longleftrightarrow>
     \<not> merge_raises existing \<and> d = dedup_rows new existing"
  by (auto simp: deduplicate_def)

lemma process_air_quality_data_Inr:
  "process_air_quality_data to_datetime db results = Inr (a, b, c, d) \<longleftrightarrow>
     (\<exists>st df. process_results (initial_state db) results = Inr st \<and>
        normalise_timestamps to_datetime (measurements st) = Inr df \<and>
        a = countries st \<and> b = cities st \<and> c = locations st \<and>
        \<not> merge_raises (tbl_measurements db) \<and>
        d = dedup_rows df (tbl_measurements db))"
  by (auto simp: process_air_quality_data_def bind_err_eq_Inr deduplicate_Inr)

text \<open>
  Claim C3: whenever the processing returns, no two returned measurement rows have the
  same (location_id, parameter, value, last_updated, unit) tuple, and no returned row
  has the tuple of a row of the existing measurements.
\<close>

theorem dedup_correctness:
  assumes "process_air_quality_data to_datetime db results =
             Inr (new_countries, new_cities, new_locations, new_measurements)"
  shows "distinct (map dedup_tuple new_measurements) \<and>
         (\<forall>m \<in> set new_measurements. \<forall>e \<in> set (tbl_measurements db).
            dedup_tuple m \<noteq> dedup_tuple e)"
proof -
  from assms obtain df where d: "new_measurements = dedup_rows df (tbl_measurements db)"
    by (auto simp: process_air_quality_data_Inr)
  have "distinct (map dedup_tuple new_measurements)"
    unfolding d by (simp add: distinct_map dedup_rows_distinct inj_on_def dedup_tuple_eq_iff)
  moreover have "\<forall>m \<in> set new_measurements. \<forall>e \<in> set (tbl_measurements db).
      dedup_tuple m \<noteq> dedup_tuple e"
    using dedup_rows_disjoint [of df "tbl_measurements db"] unfolding d
    by (auto simp: dedup_tuple_eq_iff)
  ultimately show ?thesis by simp
qed


lemma second_run:
  "process_air_quality_data example_to_datetime stored_database
     [example_record, second_record] =
     Inr ([],
          [\<lparr>city_id = 2, city_name = ''York'', city_country_id = 1\<rparr>],
          [\<lparr>location_id = 2, location_name = ''Station B'', location_city_id = 2,
            latitude = Some 54, longitude = Some (- 1)\<rparr>],
          [\<lparr>m_location_id = 2, m_parameter = ''pm25'', m_value = 15,
            m_last_updated = Some 1704067200, m_unit = ''ug/m3''\<rparr>])"
  by (simp add: eval_defs)

text \<open>
  The theorem on the stored example database and a batch that repeats a stored reading
  and reports a new one twice.
\<close>

theorem dedup_correctness_witness:
  "distinct (map dedup_tuple
     [\<lparr>m_location_id = 2, m_parameter = ''pm25'', m_value = 15,
       m_last_updated = Some (1704067200 :: int), m_unit = ''ug/m3''\<rparr>]) \<and>
   dedup_tuple \<lparr>m_location_id = 2, m_parameter = ''pm25'', m_value = 15,
                m_last_updated = Some (1704067200 :: int), m_unit = ''ug/m3''\<rparr> \<noteq>
   dedup_tuple \<lparr>m_location_id = 1, m_parameter = ''pm25'', m_value = 12,
                m_last_updated = Some (1704067200 :: int), m_unit = ''ug/m3''\<rparr>"
  using dedup_correctness [OF second_run]
  by (simp add: stored_database_def empty_database_def)

section \<open>Malformed records\<close>













section \<open>Empty batch\<close>

text \<open>
  Claim C7 at the empty batch: the list of measurement dicts is empty, the DataFrame
  built from it has no \<open>last_updated\<close> column, line 138 raises \<^verbatim>\<open>KeyError\<close>, and the
  orchestrator reports an error instead of "no new data". The database is left as it
  was.
\<close>

theorem empty_batch_logged_as_error:
  "process_air_quality_data to_datetime db [] = Inl (KeyError ''last_updated'') \<and>
   fetch_process_load_data fails to_datetime db [] =
     (db, ErrorLogged (KeyError ''last_updated''))"
  by (simp add: fetch_process_load_data_def process_air_quality_data_def initial_state_def
      normalise_timestamps_def last_updated_column_def split_beta)

section \<open>Loading\<close>

lemma then_db_simps [simp]:
  "then_db (db, None) f = f db" "then_db (db, Some e) f = (db, Some e)"
  by (simp_all add: then_db_def)

lemma then_db_cases:
  "then_db r f = (if snd r = None then f (fst r) else r)"
  by (cases r; cases "snd r") (auto simp: then_db_def)

lemma core_tables_constraints [simp]:
  "core_tables (db\<lparr>primary_keys := pk\<rparr>) = core_tables db"
  "core_tables (db\<lparr>foreign_keys := fk\<rparr>) = core_tables db"
  "core_tables (db\<lparr>tbl_parameters := pt\<rparr>) = core_tables db"
  by (simp_all add: core_tables_def)

text \<open>One core table: either its upload fails and nothing changed, or its rows are appended.\<close>

lemma upload_core_table_result:
  "(fails (Upload (table_names t)) \<and> upload_core_table fails dfs t db =
      (db, Some (SQLAlchemyError (table_names t)))) \<or>
   (\<not> fails (Upload (table_names t)) \<and>
      core_tables (fst (upload_core_table fails dfs t db)) = core_tables (append_core dfs t db))"
  by (simp add: upload_core_table_def upload_to_db_def cast_data_types_def
      add_primary_key_def add_foreign_key_def)

lemma upload_parameter_table_core:
  "core_tables (fst (upload_parameter_table fails item db)) = core_tables db"
  by (cases item)
    (simp add: upload_parameter_table_def upload_to_db_def cast_data_types_def
      add_foreign_key_def split_beta Let_def)

lemma for_each_core:
  "(\<And>x d. core_tables (fst (body x d)) = core_tables d) \<Longrightarrow>
   core_tables (fst (for_each body xs db)) = core_tables db"
  by (induction xs arbitrary: db) (simp_all add: then_db_cases)


lemma append_core_cong:
  "core_tables a = core_tables b \<Longrightarrow>
   core_tables (append_core dfs t a) = core_tables (append_core dfs t b)"
  by (cases t) (simp_all add: core_tables_def)

lemma fold_append_core_cong:
  "core_tables a = core_tables b \<Longrightarrow>
   core_tables (fold (append_core dfs) ts a) = core_tables (fold (append_core dfs) ts b)"
proof (induction ts arbitrary: a b)
  case Nil
  then show ?case by simp
next
  case (Cons t ts)
  from Cons.IH [OF append_core_cong [OF Cons.prems]] show ?case by simp
qed

lemma upload_core_tables_prefix:
  "\<exists>n \<le> length ts.
     core_tables (fst (for_each (upload_core_table fails dfs) ts db)) =
       core_tables (fold (append_core dfs) (take n ts) db) \<and>
     (snd (for_each (upload_core_table fails dfs) ts db) = None \<longrightarrow> n = length ts) \<and>
     ((\<exists>t \<in> set ts. fails (Upload (table_names t))) \<longrightarrow>
        snd (for_each (upload_core_table fails dfs) ts db) \<noteq> None)"
proof (induction ts arbitrary: db)
  case Nil
  then show ?case by simp
next
  case (Cons t ts)
  define step where "step = upload_core_table fails dfs t db"
  define rest where "rest = for_each (upload_core_table fails dfs) ts (fst step)"
  have unfold: "for_each (upload_core_table fails dfs) (t # ts) db =
      (if snd step = None then rest else step)"
    unfolding step_def rest_def by (simp add: then_db_cases)
  have res: "(fails (Upload (table_names t)) \<and> step = (db, Some (SQLAlchemyError (table_names t)))) \<or>
      (\<not> fails (Upload (table_names t)) \<and>
       core_tables (fst step) = core_tables (append_core dfs t db))"
    unfolding step_def by (rule upload_core_table_result)
  show ?case
  proof (cases "snd step = None")
    case True
    with res have ok: "\<not> fails (Upload (table_names t))"
      and core: "core_tables (fst step) = core_tables (append_core dfs t db)"
      by auto
    from Cons.IH [of "fst step", folded rest_def] obtain n
      where n: "n \<le> length ts \<and>
        core_tables (fst rest) = core_tables (fold (append_core dfs) (take n ts) (fst step)) \<and>
        (snd rest = None \<longrightarrow> n = length ts) \<and>
        ((\<exists>t \<in> set ts. fails (Upload (table_names t))) \<longrightarrow> snd rest \<noteq> None)" ..
    have c: "core_tables (fold (append_core dfs) (take n ts) (fst step)) =
        core_tables (fold (append_core dfs) (take (Suc n) (t # ts)) db)"
      using fold_append_core_cong [OF core] by simp
    have "Suc n \<le> length (t # ts)" using n by simp
    moreover have "core_tables (fst rest) =
        core_tables (fold (append_core dfs) (take (Suc n) (t # ts)) db)"
      using n c by simp
    moreover have "snd rest = None \<longrightarrow> Suc n = length (t # ts)"
      using n by simp
    moreover have "(\<exists>u \<in> set (t # ts). fails (Upload (table_names u))) \<longrightarrow> snd rest \<noteq> None"
      using n ok by simp
    ultimately show ?thesis
      unfolding unfold using True by (intro exI [of _ "Suc n"]) simp
  next
    case False
    from res consider "fst step = db" | "core_tables (fst step) = core_tables (append_core dfs t db)"
      by auto
    then show ?thesis
    proof cases
      case 1
      with False show ?thesis
        unfolding unfold by (intro exI [of _ 0]) auto
    next
      case 2
      with False show ?thesis
        unfolding unfold by (intro exI [of _ 1]) auto
    qed
  qed
qed

lemma then_db_parameter_tables_core:
  "core_tables (fst (then_db r (for_each (upload_parameter_table fails) gs))) =
   core_tables (fst r)"
  by (simp add: then_db_cases for_each_core upload_parameter_table_core)

lemma then_db_error: "snd r \<noteq> None \<Longrightarrow> snd (then_db r f) \<noteq> None"
  by (auto simp: then_db_cases)

lemma then_db_no_error: "snd (then_db r f) = None \<Longrightarrow> snd r = None"
  by (auto simp: then_db_cases split: if_splits)

lemma reraise_fst:
  "fst (case r of (db', None) \<Rightarrow> (db', None) | (db', Some e) \<Rightarrow> (db', Some e')) = fst r"
  by (auto split: prod.splits option.splits)

lemma reraise_snd:
  "snd (case r of (db', None) \<Rightarrow> (db', None) | (db', Some e) \<Rightarrow> (db', Some e')) =
     (if snd r = None then None else Some e')"
  by (auto split: prod.splits option.splits)

lemma every_core_table: "t \<in> set [Countries, Cities, Locations, Measurements]"
  by (cases t) simp_all

lemma upload_data_prefix:
  "\<exists>n \<le> 4.
     core_tables (fst (upload_data fails dfs db)) =
       core_tables (fold (append_core dfs) (take n [Countries, Cities, Locations, Measurements]) db) \<and>
     (snd (upload_data fails dfs db) = None \<longrightarrow> n = 4) \<and>
     (snd (upload_data fails dfs db) \<noteq> None \<longrightarrow>
        snd (upload_data fails dfs db) =
          Some (RuntimeError ''Error uploading and configuring tables'')) \<and>
     ((\<exists>t. fails (Upload (table_names t))) \<longrightarrow> snd (upload_data fails dfs db) \<noteq> None)"
proof -
  define ts where "ts = [Countries, Cities, Locations, Measurements]"
  define core where "core = for_each (upload_core_table fails dfs) ts db"
  define all where "all = then_db core
      (for_each (upload_parameter_table fails) (create_parameter_tables (measurements_df dfs)))"
  have len: "length ts = 4" by (simp add: ts_def)
  have ex: "\<exists>t \<in> set ts. fails (Upload (table_names t))"
    if "\<exists>t. fails (Upload (table_names t))"
    using that every_core_table unfolding ts_def by blast
  from upload_core_tables_prefix [of ts fails dfs db, folded core_def] obtain n
    where n: "n \<le> length ts \<and>
      core_tables (fst core) = core_tables (fold (append_core dfs) (take n ts) db) \<and>
      (snd core = None \<longrightarrow> n = length ts) \<and>
      ((\<exists>t \<in> set ts. fails (Upload (table_names t))) \<longrightarrow> snd core \<noteq> None)" ..
  from n have n0: "n \<le> length ts" by (rule conjunct1)
  from n have n1: "core_tables (fst core) = core_tables (fold (append_core dfs) (take n ts) db)"
    by (elim conjE)
  from n have n2: "snd core = None \<longrightarrow> n = length ts"
    by (elim conjE)
  from n have n3: "(\<exists>t \<in> set ts. fails (Upload (table_names t))) \<longrightarrow> snd core \<noteq> None"
    by (elim conjE)
  have core_all: "core_tables (fst all) = core_tables (fst core)"
    unfolding all_def by (rule then_db_parameter_tables_core)
  have up: "upload_data fails dfs db =
      (case all of (db', None) \<Rightarrow> (db', None)
       | (db', Some e) \<Rightarrow> (db', Some (RuntimeError ''Error uploading and configuring tables'')))"
    unfolding upload_data_def all_def core_def ts_def ..
  have fst_up: "fst (upload_data fails dfs db) = fst all"
    unfolding up by (rule reraise_fst)
  have snd_up: "snd (upload_data fails dfs db) =
      (if snd all = None then None
       else Some (RuntimeError ''Error uploading and configuring tables''))"
    unfolding up by (rule reraise_snd)
  have a: "n \<le> 4" using n0 len by simp
  have b: "snd all = None \<longrightarrow> n = 4"
    using n2 len then_db_no_error [of core] unfolding all_def by auto
  have c: "(\<exists>t. fails (Upload (table_names t))) \<longrightarrow> snd all \<noteq> None"
    using n3 ex then_db_error [of core] unfolding all_def by blast
  have d: "core_tables (fst (upload_data fails dfs db)) =
      core_tables (fold (append_core dfs) (take n ts) db)"
    unfolding fst_up core_all n1 ..
  show ?thesis
    unfolding ts_def [symmetric]
    using a b c d unfolding snd_up by (intro exI [of _ n]) auto
qed


lemmas load_defs =
  fetch_process_load_data_def upload_data_def upload_core_table_def upload_to_db_def
  cast_data_types_def add_primary_key_def add_foreign_key_def check_key_exists_def
  cities_upload_fails_def core_tables_def

text \<open>
  Claim C9 as stated fails: when the upload of the cities table fails, the country of
  the example record has been appended and stays, the other three tables have received
  nothing, and the run is reported as failed.
\<close>

theorem countries_appended_without_cities:
  "core_tables (fst (fetch_process_load_data cities_upload_fails example_to_datetime
                      empty_database [example_record])) =
     ([\<lparr>country_id = 1, country_name = ''UK''\<rparr>], [], [], []) \<and>
   snd (fetch_process_load_data cities_upload_fails example_to_datetime
          empty_database [example_record]) =
     ErrorLogged (RuntimeError ''Error uploading and configuring tables'')"
  by (simp add: load_defs example_run) (simp add: empty_database_def)

section \<open>The loop body, block by block\<close>

lemma resolve_country_cases:
  assumes "resolve_country co st = (st', c)"
  shows "(country_id_map st co = Some c \<and> st' = st) \<or>
         (country_id_map st co = None \<and> c = country_id_counter st \<and>
          st' = st\<lparr>country_id_map := (country_id_map st)(co \<mapsto> c),
                   countries := countries st @ [\<lparr>country_id = c, country_name = co\<rparr>],
                   country_id_counter := c + 1\<rparr>)"
  using assms by (auto simp: resolve_country_def Let_def split: if_splits)

lemma resolve_city_cases:
  assumes "resolve_city cy c st = (st', ci)"
  shows "(city_id_map st (cy, c) = Some ci \<and> st' = st) \<or>
         (city_id_map st (cy, c) = None \<and> ci = city_id_counter st \<and>
          st' = st\<lparr>city_id_map := (city_id_map st)((cy, c) \<mapsto> ci),
                   cities := cities st @
                     [\<lparr>city_id = ci, city_name = cy, city_country_id = c\<rparr>],
                   city_id_counter := ci + 1\<rparr>)"
  using assms by (auto simp: resolve_city_def Let_def split: if_splits)

lemma resolve_location_cases:
  assumes "resolve_location nm ci lat lon st = (st', l)"
  shows "(location_id_map st (nm, ci, batch_coord lat, batch_coord lon) = Some l \<and> st' = st) \<or>
         (location_id_map st (nm, ci, batch_coord lat, batch_coord lon) = None \<and> l = location_id_counter st \<and>
          st' = st\<lparr>location_id_map := (location_id_map st)((nm, ci, batch_coord lat, batch_coord lon) \<mapsto> l),
                   locations := locations st @
                     [\<lparr>location_id = l, location_name = nm, location_city_id = ci,
                       latitude = lat, longitude = lon\<rparr>],
                   location_id_counter := l + 1\<rparr>)"
  using assms by (auto simp: resolve_location_def Let_def split: if_splits)

lemma resolve_entities_Inr:
  "resolve_entities st result = Inr (st', c, ci, l) \<longleftrightarrow>
     (\<exists>nm cy co cs lat lon st1 st2.
        r_location result = Some nm \<and> r_city result = Some cy \<and>
        r_country result = Some co \<and> r_coordinates result = Some cs \<and>
        c_latitude cs = Some lat \<and> c_longitude cs = Some lon \<and>
        resolve_country co st = (st1, c) \<and> resolve_city cy c st1 = (st2, ci) \<and>
        resolve_location nm ci lat lon st2 = (st', l))"
proof (cases "r_location result"; cases "r_city result"; cases "r_country result";
    cases "r_coordinates result")
  fix nm cy co cs
  assume f: "r_location result = Some nm" "r_city result = Some cy"
    "r_country result = Some co" "r_coordinates result = Some cs"
  obtain st1 c1 where a: "resolve_country co st = (st1, c1)" by fastforce
  obtain st2 ci2 where b: "resolve_city cy c1 st1 = (st2, ci2)" by fastforce
  show ?thesis
  proof (cases "c_latitude cs"; cases "c_longitude cs")
    fix lat lon
    assume g: "c_latitude cs = Some lat" "c_longitude cs = Some lon"
    obtain st3 l3 where c: "resolve_location nm ci2 lat lon st2 = (st3, l3)" by fastforce
    show ?thesis
      using f g a b c by (auto simp: resolve_entities_def)
  qed (simp_all add: resolve_entities_def f a b)
qed (simp_all add: resolve_entities_def)

lemma process_result_Inr:
  "process_result st result = Inr st'' \<longleftrightarrow>
     (\<exists>st' c ci l ms rows.
        resolve_entities st result = Inr (st', c, ci, l) \<and>
        r_measurements result = Some ms \<and>
        map_err (measurement_dict l) ms = Inr rows \<and>
        st'' = st'\<lparr>measurements := measurements st' @ rows\<rparr>)"
  by (auto simp: process_result_def bind_err_eq_Inr getitem_eq_Inr)

lemma process_results_Cons_Inr:
  "process_results st (r # rs) = Inr st'' \<longleftrightarrow>
     (\<exists>st'. process_result st r = Inr st' \<and> process_results st' rs = Inr st'')"
  by (simp add: bind_err_eq_Inr)


section \<open>The id maps only grow\<close>

lemma maps_le_refl [simp]: "maps_le st st"
  by (simp add: maps_le_def)


lemma maps_le_measurements [simp]: "maps_le st (st'\<lparr>measurements := ms\<rparr>) = maps_le st st'"
  by (simp add: maps_le_def)

















section \<open>Seeding the registries\<close>


lemma populate_id_map_counter:
  "snd (populate_id_map rows m idc key c) = fold (\<lambda>r c. max c (idc r + 1)) rows c"
  by (induction rows arbitrary: m c) auto


lemma initial_state_fields [simp]:
  "country_id_map (initial_state db) =
     fst (populate_id_map (tbl_countries db) Map.empty country_id country_key_cols 1)"
  "city_id_map (initial_state db) =
     fst (populate_id_map (tbl_cities db) Map.empty city_id city_key_cols 1)"
  "location_id_map (initial_state db) =
     fst (populate_id_map (tbl_locations db) Map.empty location_id
       (location_key_cols (tbl_locations db)) 1)"
  "country_id_counter (initial_state db) =
     snd (populate_id_map (tbl_countries db) Map.empty country_id country_key_cols 1)"
  "city_id_counter (initial_state db) =
     snd (populate_id_map (tbl_cities db) Map.empty city_id city_key_cols 1)"
  "location_id_counter (initial_state db) =
     snd (populate_id_map (tbl_locations db) Map.empty location_id
       (location_key_cols (tbl_locations db)) 1)"
  "countries (initial_state db) = []" "cities (initial_state db) = []"
  "locations (initial_state db) = []" "measurements (initial_state db) = []"
  by (simp_all add: initial_state_def split_beta)






section \<open>Key stability\<close>






section \<open>Measurement rows of one record\<close>

lemma map_err_Inr:
  "map_err f xs = Inr ys \<longleftrightarrow> list_all2 (\<lambda>x y. f x = Inr y) xs ys"
proof (induction xs arbitrary: ys)
  case Nil
  then show ?case by auto
next
  case (Cons x xs)
  show ?case
    by (cases ys) (auto simp: bind_err_eq_Inr Cons.IH)
qed

lemma measurement_dict_Inr:
  "measurement_dict l m = Inr row \<longleftrightarrow>
     (\<exists>p v t u. r_parameter m = Some p \<and> r_value m = Some v \<and> r_lastUpdated m = Some t \<and>
        r_unit m = Some u \<and>
        row = \<lparr>m_location_id = l, m_parameter = p, m_value = v, m_last_updated = t,
               m_unit = u\<rparr>)"
  by (auto simp: measurement_dict_def bind_err_eq_Inr getitem_eq_Inr)

lemma measurement_rows_location:
  "map_err (measurement_dict l) ms = Inr rows \<Longrightarrow> row \<in> set rows \<Longrightarrow> m_location_id row = l"
  by (auto simp: map_err_Inr list_all2_conv_all_nth in_set_conv_nth measurement_dict_Inr)

section \<open>Referential integrity\<close>

lemma populate_id_map_value:
  "fst (populate_id_map rows m idc key c) k = Some v \<Longrightarrow>
   m k = Some v \<or> v \<in> idc ` set rows"
proof (induction rows arbitrary: m c)
  case Nil
  then show ?case by simp
next
  case (Cons a rows)
  from Cons.prems have "fst (populate_id_map rows (m(key a \<mapsto> idc a)) idc key
      (max c (idc a + 1))) k = Some v" by simp
  from Cons.IH [OF this] show ?case
    by (auto split: if_splits)
qed

lemma fk_inv_initial: "fk_inv db (initial_state db)"
  by (auto simp: fk_inv_def dest: populate_id_map_value)

lemma fk_inv_country:
  assumes "fk_inv db st" and "resolve_country co st = (st', c)"
  shows "fk_inv db st' \<and> c \<in> country_id ` set (tbl_countries db @ countries st')"
proof -
  from resolve_country_cases [OF assms(2)] show ?thesis
  proof (elim disjE conjE)
    assume "country_id_map st co = Some c" "st' = st"
    with assms(1) show ?thesis by (auto simp: fk_inv_def)
  next
    assume "country_id_map st co = None" "c = country_id_counter st"
      and st': "st' = st\<lparr>country_id_map := (country_id_map st)(co \<mapsto> c),
        countries := countries st @ [\<lparr>country_id = c, country_name = co\<rparr>],
        country_id_counter := c + 1\<rparr>"
    from assms(1) show ?thesis
      unfolding st' fk_inv_def by (simp add: image_iff; blast)
  qed
qed

lemma fk_inv_city:
  assumes "fk_inv db st" and "resolve_city cy c st = (st', ci)"
    and "c \<in> country_id ` set (tbl_countries db @ countries st)"
  shows "fk_inv db st' \<and> ci \<in> city_id ` set (tbl_cities db @ cities st')"
proof -
  from resolve_city_cases [OF assms(2)] show ?thesis
  proof (elim disjE conjE)
    assume "city_id_map st (cy, c) = Some ci" "st' = st"
    with assms(1) show ?thesis by (auto simp: fk_inv_def)
  next
    assume "city_id_map st (cy, c) = None" "ci = city_id_counter st"
      and st': "st' = st\<lparr>city_id_map := (city_id_map st)((cy, c) \<mapsto> ci),
        cities := cities st @ [\<lparr>city_id = ci, city_name = cy, city_country_id = c\<rparr>],
        city_id_counter := ci + 1\<rparr>"
    from assms(1,3) show ?thesis
      unfolding st' fk_inv_def by (simp add: image_iff; blast)
  qed
qed

lemma fk_inv_location:
  assumes "fk_inv db st" and "resolve_location nm ci lat lon st = (st', l)"
    and "ci \<in> city_id ` set (tbl_cities db @ cities st)"
  shows "fk_inv db st' \<and> l \<in> location_id ` set (tbl_locations db @ locations st')"
proof -
  from resolve_location_cases [OF assms(2)] show ?thesis
  proof (elim disjE conjE)
    assume "location_id_map st (nm, ci, batch_coord lat, batch_coord lon) = Some l" "st' = st"
    with assms(1) show ?thesis by (auto simp: fk_inv_def)
  next
    assume "location_id_map st (nm, ci, batch_coord lat, batch_coord lon) = None" "l = location_id_counter st"
      and st': "st' = st\<lparr>location_id_map := (location_id_map st)((nm, ci, batch_coord lat, batch_coord lon) \<mapsto> l),
        locations := locations st @
          [\<lparr>location_id = l, location_name = nm, location_city_id = ci,
            latitude = lat, longitude = lon\<rparr>],
        location_id_counter := l + 1\<rparr>"
    from assms(1,3) show ?thesis
      unfolding st' fk_inv_def by (simp add: image_iff; blast)
  qed
qed

lemma fk_inv_resolve_entities:
  assumes "fk_inv db st" and "resolve_entities st result = Inr (st', c, ci, l)"
  shows "fk_inv db st' \<and> l \<in> location_id ` set (tbl_locations db @ locations st')"
proof -
  from assms(2) obtain nm cy co lat lon st1 st2 where
    a: "resolve_country co st = (st1, c)"
    and b: "resolve_city cy c st1 = (st2, ci)"
    and d: "resolve_location nm ci lat lon st2 = (st', l)"
    unfolding resolve_entities_Inr by blast
  note 1 = fk_inv_country [OF assms(1) a]
  note 2 = fk_inv_city [OF 1 [THEN conjunct1] b 1 [THEN conjunct2]]
  show ?thesis
    by (rule fk_inv_location [OF 2 [THEN conjunct1] d 2 [THEN conjunct2]])
qed

lemma fk_inv_measurements:
  "fk_inv db st \<Longrightarrow>
   \<forall>m \<in> set rows. m_location_id m \<in> location_id ` set (tbl_locations db @ locations st) \<Longrightarrow>
   fk_inv db (st\<lparr>measurements := measurements st @ rows\<rparr>)"
  unfolding fk_inv_def by auto

lemma fk_inv_process_result:
  assumes "fk_inv db st" and "process_result st result = Inr st'"
  shows "fk_inv db st'"
proof -
  from assms(2) obtain st1 c ci l ms rows where
    a: "resolve_entities st result = Inr (st1, c, ci, l)"
    and b: "map_err (measurement_dict l) ms = Inr rows"
    and c: "st' = st1\<lparr>measurements := measurements st1 @ rows\<rparr>"
    unfolding process_result_Inr by blast
  note 1 = fk_inv_resolve_entities [OF assms(1) a]
  have "\<forall>m \<in> set rows. m_location_id m \<in> location_id ` set (tbl_locations db @ locations st1)"
    using measurement_rows_location [OF b] 1 by simp
  from fk_inv_measurements [OF 1 [THEN conjunct1] this] show ?thesis
    unfolding c .
qed

lemma fk_inv_process_results:
  "fk_inv db st \<Longrightarrow> process_results st results = Inr st' \<Longrightarrow> fk_inv db st'"
proof (induction results arbitrary: st)
  case Nil
  then show ?case by simp
next
  case (Cons r rs)
  from Cons.prems(2) obtain st1 where a: "process_result st r = Inr st1"
    and b: "process_results st1 rs = Inr st'"
    unfolding process_results_Cons_Inr by blast
  from Cons.IH [OF fk_inv_process_result [OF Cons.prems(1) a] b] show ?case .
qed


section \<open>Timestamps and the returned measurements\<close>

lemma map2_map_map: "map2 f xs (map g xs) = map (\<lambda>x. f x (g x)) xs"
  by (induction xs) simp_all

lemma normalise_timestamps_Inr:
  "normalise_timestamps to_datetime df = Inr out \<longleftrightarrow>
     df \<noteq> [] \<and> single_tz (map (\<lambda>m. to_datetime (m_last_updated m)) df) \<and>
     out = map (\<lambda>m. set_last_updated m (map_option wall_clock (to_datetime (m_last_updated m)))) df"
proof -
  have "map2 set_last_updated df
      (map (map_option wall_clock) (map to_datetime (map m_last_updated df))) =
    map (\<lambda>m. set_last_updated m (map_option wall_clock (to_datetime (m_last_updated m)))) df"
    using map2_map_map [of set_last_updated df
        "\<lambda>m. map_option wall_clock (to_datetime (m_last_updated m))"]
    by (simp add: comp_def)
  then show ?thesis
    by (auto simp: normalise_timestamps_def last_updated_column_def dt_tz_localize_None_def
        comp_def)
qed

lemma set_dedup_rows_subset: "set (dedup_rows new existing) \<subseteq> set new"
  by (auto simp: dedup_rows_def merge_left_only_def)

lemma set_last_updated_location [simp]:
  "m_location_id (set_last_updated m t) = m_location_id m"
  by (simp add: set_last_updated_def)

text \<open>
  Claim C4: whenever the processing returns, the country of every returned city row,
  the city of every returned location row and the location of every returned
  measurement row is the id of a stored row or of a returned row of the table referred
  to.
\<close>

theorem no_orphan_foreign_keys:
  assumes "process_air_quality_data to_datetime db results =
             Inr (new_countries, new_cities, new_locations, new_measurements)"
  shows "(\<forall>row \<in> set new_cities.
            city_country_id row \<in> country_id ` set (tbl_countries db @ new_countries)) \<and>
         (\<forall>row \<in> set new_locations.
            location_city_id row \<in> city_id ` set (tbl_cities db @ new_cities)) \<and>
         (\<forall>m \<in> set new_measurements.
            m_location_id m \<in> location_id ` set (tbl_locations db @ new_locations))"
proof -
  from assms obtain st df where run: "process_results (initial_state db) results = Inr st"
    and norm: "normalise_timestamps to_datetime (measurements st) = Inr df"
    and out: "new_countries = countries st" "new_cities = cities st"
      "new_locations = locations st"
      "new_measurements = dedup_rows df (tbl_measurements db)"
    unfolding process_air_quality_data_Inr by blast
  from fk_inv_process_results [OF fk_inv_initial run] have inv: "fk_inv db st" .
  have "m_location_id m \<in> location_id ` set (tbl_locations db @ locations st)"
    if "m \<in> set new_measurements" for m
  proof -
    from that out(4) set_dedup_rows_subset have "m \<in> set df" by blast
    with norm obtain raw where "raw \<in> set (measurements st)"
      "m_location_id m = m_location_id raw"
      unfolding normalise_timestamps_Inr by auto
    with inv show ?thesis unfolding fk_inv_def by metis
  qed
  with inv show ?thesis
    unfolding out(1-3) fk_inv_def by blast
qed

text \<open>The theorem on the run that adds York and Station B to the stored example.\<close>

theorem no_orphan_foreign_keys_witness:
  "city_country_id \<lparr>city_id = 2, city_name = ''York'', city_country_id = 1\<rparr>
     \<in> country_id ` set (tbl_countries stored_database @ []) \<and>
   location_city_id \<lparr>location_id = 2, location_name = ''Station B'', location_city_id = 2,
                     latitude = Some 54, longitude = Some (- 1)\<rparr>
     \<in> city_id ` set (tbl_cities stored_database @
                        [\<lparr>city_id = 2, city_name = ''York'', city_country_id = 1\<rparr>]) \<and>
   m_location_id \<lparr>m_location_id = 2, m_parameter = ''pm25'', m_value = 15,
                  m_last_updated = Some (1704067200 :: int), m_unit = ''ug/m3''\<rparr>
     \<in> location_id ` set (tbl_locations stored_database @
                            [\<lparr>location_id = 2, location_name = ''Station B'',
                              location_city_id = 2, latitude = Some 54, longitude = Some (- 1)\<rparr>])"
  using no_orphan_foreign_keys [OF second_run] by simp


section \<open>A failing write\<close>

lemma for_each_append:
  "for_each body (xs @ ys) db = then_db (for_each body xs db) (for_each body ys)"
proof (induction xs arbitrary: db)
  case Nil
  then show ?case by simp
next
  case (Cons x xs)
  show ?case
    by (cases "body x db"; cases "snd (body x db)") (simp_all add: Cons.IH)
qed

lemma upload_core_tables_all:
  assumes "snd (for_each (upload_core_table fails dfs) ts db) = None"
  shows "core_tables (fst (for_each (upload_core_table fails dfs) ts db)) =
         core_tables (fold (append_core dfs) ts db)"
proof -
  from upload_core_tables_prefix [of ts fails dfs db] obtain n where
    n: "n \<le> length ts \<and>
     core_tables (fst (for_each (upload_core_table fails dfs) ts db)) =
       core_tables (fold (append_core dfs) (take n ts) db) \<and>
     (snd (for_each (upload_core_table fails dfs) ts db) = None \<longrightarrow> n = length ts) \<and>
     ((\<exists>t \<in> set ts. fails (Upload (table_names t))) \<longrightarrow>
        snd (for_each (upload_core_table fails dfs) ts db) \<noteq> None)" ..
  from n assms have "n = length ts" by blast
  with n show ?thesis by simp
qed

lemma failing_table:
  assumes ok: "snd (for_each (upload_core_table fails dfs) before db) = None"
    and bad: "snd (upload_core_table fails dfs t
                (fst (for_each (upload_core_table fails dfs) before db))) \<noteq> None"
  shows "core_tables (fst (for_each (upload_core_table fails dfs) (before @ t # after) db)) =
           core_tables (fold (append_core dfs)
             (before @ (if fails (Upload (table_names t)) then [] else [t])) db) \<and>
         snd (for_each (upload_core_table fails dfs) (before @ t # after) db) \<noteq> None"
proof -
  define d1 where "d1 = fst (for_each (upload_core_table fails dfs) before db)"
  define step where "step = upload_core_table fails dfs t d1"
  have b: "for_each (upload_core_table fails dfs) before db = (d1, None)"
    using ok unfolding d1_def by (metis prod.collapse)
  have bad': "snd step \<noteq> None" using bad unfolding step_def d1_def .
  have run: "for_each (upload_core_table fails dfs) (before @ t # after) db = step"
    using bad' unfolding for_each_append b step_def [symmetric]
    by (auto simp: then_db_cases step_def [symmetric])
  have c1: "core_tables d1 = core_tables (fold (append_core dfs) before db)"
    unfolding d1_def by (rule upload_core_tables_all [OF ok])
  from upload_core_table_result [of fails t dfs d1, folded step_def]
  have "core_tables (fst step) =
      core_tables (fold (append_core dfs)
        (before @ (if fails (Upload (table_names t)) then [] else [t])) db)"
  proof (elim disjE conjE)
    assume "fails (Upload (table_names t))"
      "step = (d1, Some (SQLAlchemyError (table_names t)))"
    with c1 show ?thesis by simp
  next
    assume "\<not> fails (Upload (table_names t))"
      "core_tables (fst step) = core_tables (append_core dfs t d1)"
    with append_core_cong [OF c1, of dfs t] show ?thesis by simp
  qed
  with bad' show ?thesis unfolding run by simp
qed


text \<open>
  Claim C9, as the code has it. The loader goes through the four core tables in the
  order countries, cities, locations, measurements. If the tables before table \<open>t\<close> were
  uploaded and configured without failure and an operation on \<open>t\<close> fails, then the run
  stops there with \<^verbatim>\<open>RuntimeError\<close>, which the orchestrator logs: the tables before \<open>t\<close>
  stay appended, \<open>t\<close> itself is appended too unless it was its upload that failed, and
  the tables after \<open>t\<close> are not written.
\<close>

theorem failed_write_keeps_earlier_appends:
  assumes "[Countries, Cities, Locations, Measurements] = before @ t # after"
    and "snd (for_each (upload_core_table fails dfs) before db) = None"
    and "snd (upload_core_table fails dfs t
           (fst (for_each (upload_core_table fails dfs) before db))) \<noteq> None"
  shows "core_tables (fst (upload_data fails dfs db)) =
           core_tables (fold (append_core dfs)
             (before @ (if fails (Upload (table_names t)) then [] else [t])) db) \<and>
         snd (upload_data fails dfs db) =
           Some (RuntimeError ''Error uploading and configuring tables'') \<and>
         (\<forall>to_datetime results.
            process_air_quality_data to_datetime db results =
              Inr (countries_df dfs, cities_df dfs, locations_df dfs, measurements_df dfs) \<and>
            measurements_df dfs \<noteq> [] \<longrightarrow>
            fetch_process_load_data fails to_datetime db results =
              (fst (upload_data fails dfs db),
               ErrorLogged (RuntimeError ''Error uploading and configuring tables'')))"
proof -
  define core where
    "core = for_each (upload_core_table fails dfs) [Countries, Cities, Locations, Measurements] db"
  define all where "all = then_db core
      (for_each (upload_parameter_table fails) (create_parameter_tables (measurements_df dfs)))"
  note f = failing_table [OF assms(2,3), of after, folded assms(1), folded core_def]
  from f have "snd core \<noteq> None" by (rule conjunct2)
  then have all: "all = core"
    unfolding all_def by (auto simp: then_db_cases)
  have up: "upload_data fails dfs db =
      (case all of (db', None) \<Rightarrow> (db', None)
       | (db', Some e) \<Rightarrow> (db', Some (RuntimeError ''Error uploading and configuring tables'')))"
    unfolding upload_data_def all_def core_def ..
  have fst_up: "fst (upload_data fails dfs db) = fst core"
    unfolding up all by (rule reraise_fst)
  have snd_up: "snd (upload_data fails dfs db) =
      Some (RuntimeError ''Error uploading and configuring tables'')"
    unfolding up all using \<open>snd core \<noteq> None\<close> by (simp add: reraise_snd)
  have orch: "fetch_process_load_data fails to_datetime db results =
      (fst (upload_data fails dfs db),
       ErrorLogged (RuntimeError ''Error uploading and configuring tables''))"
    if "process_air_quality_data to_datetime db results =
        Inr (countries_df dfs, cities_df dfs, locations_df dfs, measurements_df dfs)"
      and "measurements_df dfs \<noteq> []" for to_datetime results
  proof -
    obtain d e where de: "upload_data fails dfs db = (d, e)" by fastforce
    with snd_up have e: "e = Some (RuntimeError ''Error uploading and configuring tables'')"
      by simp
    have eta: "\<lparr>countries_df = countries_df dfs, cities_df = cities_df dfs,
        locations_df = locations_df dfs, measurements_df = measurements_df dfs\<rparr> = dfs"
      by (cases dfs) simp
    show ?thesis
      using that by (simp add: fetch_process_load_data_def eta de e)
  qed
  from f [THEN conjunct1] snd_up orch show ?thesis
    unfolding fst_up by blast
qed

lemma example_frames_run:
  "process_air_quality_data example_to_datetime empty_database [example_record] =
     Inr (countries_df example_frames, cities_df example_frames, locations_df example_frames,
          measurements_df example_frames)"
  by (simp add: example_run example_frames_def)

text \<open>
  The theorem on a run in which the type cast of the measurements table fails: the
  three tables before it were configured without failure, all four tables are appended,
  and the run is reported as failed.
\<close>

theorem failed_write_keeps_earlier_appends_witness:
  "core_tables (fst (upload_data measurements_cast_fails example_frames empty_database)) =
     core_tables (fold (append_core example_frames)
       ([Countries, Cities, Locations] @ [Measurements]) empty_database) \<and>
   snd (upload_data measurements_cast_fails example_frames empty_database) =
     Some (RuntimeError ''Error uploading and configuring tables'') \<and>
   fetch_process_load_data measurements_cast_fails example_to_datetime empty_database
     [example_record] =
     (fst (upload_data measurements_cast_fails example_frames empty_database),
      ErrorLogged (RuntimeError ''Error uploading and configuring tables''))"
proof -
  have s: "[Countries, Cities, Locations, Measurements] =
      [Countries, Cities, Locations] @ Measurements # []" by simp
  have ok: "snd (for_each (upload_core_table measurements_cast_fails example_frames)
      [Countries, Cities, Locations] empty_database) = None"
    by (simp add: upload_core_table_def upload_to_db_def cast_data_types_def
        add_primary_key_def add_foreign_key_def check_key_exists_def
        measurements_cast_fails_def)
  have bad: "snd (upload_core_table measurements_cast_fails example_frames Measurements
      (fst (for_each (upload_core_table measurements_cast_fails example_frames)
        [Countries, Cities, Locations] empty_database))) \<noteq> None"
    by (simp add: upload_core_table_def upload_to_db_def cast_data_types_def
        add_primary_key_def add_foreign_key_def check_key_exists_def
        measurements_cast_fails_def)
  have ne: "measurements_df example_frames \<noteq> []"
    by (simp add: example_frames_def)
  have nf: "\<not> measurements_cast_fails (Upload (table_names Measurements))"
    by (simp add: measurements_cast_fails_def)
  note t = failed_write_keeps_earlier_appends [OF s ok bad]
  from t [THEN conjunct1] t [THEN conjunct2, THEN conjunct1]
    t [THEN conjunct2, THEN conjunct2, rule_format, OF conjI [OF example_frames_run ne]] nf
  show ?thesis by simp
qed

section \<open>Registries\<close>












lemma registries_inv_measurements [simp]:
  "registries_inv db (st\<lparr>measurements := ms\<rparr>) = registries_inv db st"
  by (simp add: registries_inv_def)




section \<open>Running a batch again\<close>

lemma numeric_maps_le_measurements [simp]:
  "numeric_maps_le st (st'\<lparr>measurements := ms\<rparr>) = numeric_maps_le st st'"
  by (simp add: numeric_maps_le_def)










lemma populate_id_map_counter_cong:
  "snd (populate_id_map rows m idc key c) = snd (populate_id_map rows m' idc key' c)"
  by (simp add: populate_id_map_counter)












section \<open>The first id allocated\<close>





section \<open>The keys of a batch\<close>











section \<open>Allocation of new ids\<close>



section \<open>Time stamps\<close>








lemma set_last_updated_fields [simp]:
  "m_parameter (set_last_updated m t) = m_parameter m"
  "m_value (set_last_updated m t) = m_value m"
  "m_unit (set_last_updated m t) = m_unit m"
  "m_last_updated (set_last_updated m t) = t"
  by (simp_all add: set_last_updated_def)







end
